theory Spec2Isabelle
  imports Main
begin

section \<open>Data model\<close>

text \<open>
  The API service (the express application and \<^verbatim>\<open>db.js\<close>) keeps one SQLite table
  \<^verbatim>\<open>students\<close> and one in-memory object \<^verbatim>\<open>sessions\<close>. The client's \<^verbatim>\<open>Student\<close> form state
  holds six strings. The handlers read the same six fields from \<^verbatim>\<open>req.body\<close> and validate
  none of them: the email of a body may be absent or null (\<open>None\<close>), and the driver then binds
  SQL NULL for it. The email is the field that decides the lookup and the UNIQUE constraint;
  the other five are only copied into the row. A table row adds the \<^verbatim>\<open>id\<close> column, and
  its email column is nullable.
\<close>

type_synonym err = string

record 'e student =
  firstName :: string
  lastName :: string
  username :: string
  email :: 'e
  contact :: string
  password :: string

type_synonym form_fields = "string student"

type_synonym req_body = "string option student"

record row = "string option student" +
  id :: int

text \<open>JSON values, as \<^verbatim>\<open>res.json\<close> sends them. An object keeps its keys in order.\<close>

datatype json = JNull | JNum int | JStr string | JArr "json list" | JObj "(string \<times> json) list"

datatype response = Response (status: nat) (body: json)

subsection \<open>The table \<^verbatim>\<open>students\<close>\<close>

text \<open>
  \<^verbatim>\<open>CREATE TABLE IF NOT EXISTS students (id INTEGER PRIMARY KEY AUTOINCREMENT, firstName TEXT,
  lastName TEXT, username TEXT, email TEXT UNIQUE, contact TEXT, password TEXT)\<close>.
  The rows are kept in rowid order. \<open>sequence\<close> is the AUTOINCREMENT counter of the table
  (the largest rowid ever handed out).
\<close>

record database =
  students :: "row list"
  sequence :: int

text \<open>A value bound to a \<^verbatim>\<open>?\<close> placeholder: SQL NULL or a text.\<close>

datatype sqlval = SqlNull | SqlText string

text \<open>The email of a body as the driver binds it: NULL when absent or null.\<close>

definition bind_email :: "string option \<Rightarrow> sqlval" where
  "bind_email e = (case e of None \<Rightarrow> SqlNull | Some t \<Rightarrow> SqlText t)"

text \<open>A nullable text column as the driver hands it to JavaScript, in JSON.\<close>

definition nullable :: "string option \<Rightarrow> json" where
  "nullable e = (case e of None \<Rightarrow> JNull | Some t \<Rightarrow> JStr t)"

text \<open>
  Every call into the storage driver takes the error with which the driver may answer
  (\<open>None\<close>: the statement runs). The driver itself is not part of the repository.
\<close>

definition UNIQUE_email :: err where
  "UNIQUE_email = ''SQLITE_CONSTRAINT: UNIQUE constraint failed: students.email''"

text \<open>\<^verbatim>\<open>db.get("SELECT * FROM students WHERE email = ?", [email], cb)\<close>: the first matching row.
  A comparison with NULL matches no row.\<close>

definition db_get :: "err option \<Rightarrow> database \<Rightarrow> sqlval \<Rightarrow> err + row option" where
  "db_get fault d e =
     (case fault of
        Some x \<Rightarrow> Inl x
      | None \<Rightarrow>
          (case e of
             SqlNull \<Rightarrow> Inr None
           | SqlText t \<Rightarrow> Inr (find (\<lambda>r. email r = Some t) (students d))))"

text \<open>The rowid AUTOINCREMENT gives to a new row: one more than the largest rowid that ever
  existed in the table.\<close>

definition next_id :: "database \<Rightarrow> int" where
  "next_id d = max (sequence d) (fold max (map id (students d)) 0) + 1"

text \<open>\<^verbatim>\<open>db.run("INSERT INTO students (firstName, lastName, username, email, contact, password)
  VALUES (?, ?, ?, ?, ?, ?)", [...], function (err) { ... this.lastID ... })\<close>.
  The UNIQUE column rejects an email that a row already holds; NULL equals no email, so
  any number of rows may hold NULL.\<close>

definition db_run_insert :: "err option \<Rightarrow> database \<Rightarrow> req_body \<Rightarrow> err + (database \<times> int)" where
  "db_run_insert fault d v =
     (case fault of
        Some x \<Rightarrow> Inl x
      | None \<Rightarrow>
          if email v \<noteq> None \<and> email v \<in> set (map email (students d)) then Inl UNIQUE_email
          else
            let n = next_id d in
            Inr (d\<lparr>students := students d @
                       [\<lparr>firstName = firstName v, lastName = lastName v, username = username v,
                         email = email v, contact = contact v, password = password v, id = n\<rparr>],
                    sequence := n\<rparr>, n))"

text \<open>\<^verbatim>\<open>db.all("SELECT id, firstName, lastName, email, contact FROM students", [], cb)\<close>.\<close>

definition listed :: "row \<Rightarrow> json" where
  "listed r = JObj [(''id'', JNum (id r)), (''firstName'', JStr (firstName r)),
                    (''lastName'', JStr (lastName r)), (''email'', nullable (email r)),
                    (''contact'', JStr (contact r))]"

definition db_all :: "err option \<Rightarrow> database \<Rightarrow> err + json list" where
  "db_all fault d = (case fault of Some x \<Rightarrow> Inl x | None \<Rightarrow> Inr (map listed (students d)))"

text \<open>
  The \<^verbatim>\<open>:id\<close> segment of the path is a text. Compared with the INTEGER column it is first
  converted by the column's affinity: \<open>Some n\<close> when the text reads as the integer \<open>n\<close>,
  \<open>None\<close> when it does not, and then it equals no rowid.
\<close>

type_synonym ident = "int option"

definition matches :: "ident \<Rightarrow> row \<Rightarrow> bool" where
  "matches i r = (i = Some (id r))"

text \<open>\<^verbatim>\<open>db.run("UPDATE students SET firstName = ?, lastName = ?, username = ?, email = ?,
  contact = ?, password = ? WHERE id = ?", [...], cb)\<close>. The statement fails as a whole, and
  writes nothing, when a written row would take the (non-NULL) email of another row.\<close>

definition db_run_update :: "err option \<Rightarrow> database \<Rightarrow> ident \<Rightarrow> req_body \<Rightarrow> err + database" where
  "db_run_update fault d i v =
     (case fault of
        Some x \<Rightarrow> Inl x
      | None \<Rightarrow>
          if list_ex (matches i) (students d) \<and>
             list_ex (\<lambda>r. \<not> matches i r \<and> email v \<noteq> None \<and> email r = email v) (students d)
          then Inl UNIQUE_email
          else Inr (d\<lparr>students :=
                 map (\<lambda>r. if matches i r
                          then \<lparr>firstName = firstName v, lastName = lastName v,
                                username = username v, email = email v, contact = contact v,
                                password = password v, id = id r\<rparr>
                          else r) (students d)\<rparr>))"

text \<open>\<^verbatim>\<open>db.run("DELETE FROM students WHERE id = ?", [id], cb)\<close>.\<close>

definition db_run_delete :: "err option \<Rightarrow> database \<Rightarrow> ident \<Rightarrow> err + database" where
  "db_run_delete fault d i =
     (case fault of
        Some x \<Rightarrow> Inl x
      | None \<Rightarrow> Inr (d\<lparr>students := filter (\<lambda>r. \<not> matches i r) (students d)\<rparr>))"

subsection \<open>The object \<^verbatim>\<open>sessions\<close>\<close>

text \<open>
  \<^verbatim>\<open>const sessions = {}\<close> is a plain object: reading a key that is not an own property goes on
  to \<^verbatim>\<open>Object.prototype\<close>, whose members are functions (and, for \<^verbatim>\<open>__proto__\<close>, the prototype
  object itself).
\<close>

datatype jsval = JUndefined | JString string | JInherited string

definition Object_prototype :: "string list" where
  "Object_prototype =
     [''constructor'', ''__defineGetter__'', ''__defineSetter__'', ''hasOwnProperty'',
      ''__lookupGetter__'', ''__lookupSetter__'', ''isPrototypeOf'', ''propertyIsEnumerable'',
      ''toString'', ''valueOf'', ''__proto__'', ''toLocaleString'']"

type_synonym sessions = "string \<rightharpoonup> string"

text \<open>\<^verbatim>\<open>sessions[token]\<close>, where an absent header makes the key the text \<^verbatim>\<open>undefined\<close>.\<close>

definition property_key :: "string option \<Rightarrow> string" where
  "property_key k = (case k of None \<Rightarrow> ''undefined'' | Some t \<Rightarrow> t)"

definition sessions_get :: "sessions \<Rightarrow> string option \<Rightarrow> jsval" where
  "sessions_get s k =
     (case s (property_key k) of
        Some e \<Rightarrow> JString e
      | None \<Rightarrow> if property_key k \<in> set Object_prototype then JInherited (property_key k)
                else JUndefined)"

text \<open>\<^verbatim>\<open>sessions[token] = email\<close>: assigning a string to \<^verbatim>\<open>__proto__\<close> creates no property.\<close>

definition sessions_put :: "sessions \<Rightarrow> string \<Rightarrow> string \<Rightarrow> sessions" where
  "sessions_put s t e = (if t = ''__proto__'' then s else s(t \<mapsto> e))"

text \<open>\<^verbatim>\<open>!email\<close> is true for \<^verbatim>\<open>undefined\<close> and for the empty string.\<close>

definition truthy :: "jsval \<Rightarrow> bool" where
  "truthy v = (case v of JUndefined \<Rightarrow> False | JString s \<Rightarrow> s \<noteq> [] | JInherited _ \<Rightarrow> True)"

text \<open>How the driver binds a parameter. What it binds for a function or an object is the
  driver's choice, taken as the parameter \<open>drv\<close>.\<close>

definition bind_param :: "(string \<Rightarrow> sqlval) \<Rightarrow> jsval \<Rightarrow> sqlval" where
  "bind_param drv v =
     (case v of JUndefined \<Rightarrow> SqlNull | JString s \<Rightarrow> SqlText s | JInherited k \<Rightarrow> drv k)"

subsection \<open>bcrypt and the clock\<close>

text \<open>The hashing library is a dependency: \<open>bcrypt_hash lib data rounds\<close> and
  \<open>bcrypt_compare lib data encrypted\<close> are what its two callbacks receive.\<close>

record bcrypt =
  bcrypt_hash :: "string \<Rightarrow> nat \<Rightarrow> err + string"
  bcrypt_compare :: "string \<Rightarrow> string \<Rightarrow> err + bool"

definition SALT_ROUNDS :: nat where
  "SALT_ROUNDS = 10"

text \<open>\<^verbatim>\<open>Date.now()\<close> is a count of milliseconds, printed in decimal by the template literal.\<close>

definition digit :: "nat \<Rightarrow> char" where
  "digit k = ''0123456789'' ! k"

function decimal :: "nat \<Rightarrow> string" where
  "decimal n = (if n < 10 then [digit n] else decimal (n div 10) @ [digit (n mod 10)])"
  by pat_completeness auto
termination
  by (relation "measure (\<lambda>n. n)") auto

declare decimal.simps [simp del]

section \<open>The request handlers\<close>

record server =
  db :: database
  sessions :: sessions

definition message :: "string \<Rightarrow> json" where
  "message m = JObj [(''message'', JStr m)]"

definition message_error :: "string \<Rightarrow> err \<Rightarrow> json" where
  "message_error m e = JObj [(''message'', JStr m), (''error'', JStr e)]"

definition message_id :: "string \<Rightarrow> int \<Rightarrow> json" where
  "message_id m n = JObj [(''message'', JStr m), (''id'', JNum n)]"

text \<open>\<^verbatim>\<open>app.post('/api/register', ...)\<close>\<close>

definition post_register ::
  "bcrypt \<Rightarrow> err option \<Rightarrow> err option \<Rightarrow> server \<Rightarrow> req_body \<Rightarrow> server \<times> response" where
  "post_register lib get_err run_err srv b =
     (case db_get get_err (db srv) (bind_email (email b)) of
        Inl e \<Rightarrow> (srv, Response 500 (message_error ''DB error'' e))
      | Inr (Some r) \<Rightarrow> (srv, Response 400 (message ''User already exists''))
      | Inr None \<Rightarrow>
          (case bcrypt_hash lib (password b) SALT_ROUNDS of
             Inl e \<Rightarrow> (srv, Response 500 (message_error ''Hash error'' e))
           | Inr h \<Rightarrow>
               (case db_run_insert run_err (db srv) (b\<lparr>password := h\<rparr>) of
                  Inl e \<Rightarrow> (srv, Response 500 (message_error ''Insert error'' e))
                | Inr (d, lastID) \<Rightarrow>
                    (srv\<lparr>db := d\<rparr>, Response 200 (message_id ''Registered successfully'' lastID)))))"

text \<open>\<^verbatim>\<open>app.post('/api/login', ...)\<close>\<close>

definition mint :: "string \<Rightarrow> nat \<Rightarrow> string" where
  "mint e now = e @ ''-'' @ decimal now"

definition post_login ::
  "bcrypt \<Rightarrow> err option \<Rightarrow> nat \<Rightarrow> server \<Rightarrow> string \<Rightarrow> string \<Rightarrow> server \<times> response" where
  "post_login lib get_err now srv e p =
     (case db_get get_err (db srv) (SqlText e) of
        Inl x \<Rightarrow> (srv, Response 500 (message_error ''DB error'' x))
      | Inr None \<Rightarrow> (srv, Response 401 (message ''Invalid credentials''))
      | Inr (Some user) \<Rightarrow>
          (case bcrypt_compare lib p (password user) of
             Inr True \<Rightarrow>
               (let token = mint e now in
                (srv\<lparr>sessions := sessions_put (sessions srv) token e\<rparr>,
                 Response 200 (JObj [(''token'', JStr token)])))
           | _ \<Rightarrow> (srv, Response 401 (message ''Invalid credentials''))))"

text \<open>\<^verbatim>\<open>app.get('/api/profile', ...)\<close>\<close>

definition row_json :: "row \<Rightarrow> json" where
  "row_json r = JObj [(''id'', JNum (id r)), (''firstName'', JStr (firstName r)),
                      (''lastName'', JStr (lastName r)), (''username'', JStr (username r)),
                      (''email'', nullable (email r)), (''contact'', JStr (contact r)),
                      (''password'', JStr (password r))]"

text \<open>The handler reads the session and, unless the guard answers 401, issues the lookup;
  \<open>profile_lookup\<close> is what the lookup it issues answers (\<open>None\<close>: no lookup is issued).
  \<open>profile_callback\<close> is the callback \<^verbatim>\<open>(err, user) => { ... }\<close> of that lookup.\<close>

definition profile_lookup ::
  "(string \<Rightarrow> sqlval) \<Rightarrow> err option \<Rightarrow> server \<Rightarrow> string option \<Rightarrow> (err + row option) option" where
  "profile_lookup drv get_err srv token =
     (let e = sessions_get (sessions srv) token in
      if \<not> truthy e then None
      else Some (db_get get_err (db srv) (bind_param drv e)))"

definition profile_callback :: "server \<Rightarrow> err + row option \<Rightarrow> server \<times> response" where
  "profile_callback srv res =
     (case res of
        Inl x \<Rightarrow> (srv, Response 500 (message_error ''DB error'' x))
      | Inr None \<Rightarrow> (srv, Response 404 (message ''User not found''))
      | Inr (Some user) \<Rightarrow> (srv, Response 200 (JObj [(''profile'', row_json user)])))"

definition get_profile ::
  "(string \<Rightarrow> sqlval) \<Rightarrow> err option \<Rightarrow> server \<Rightarrow> string option \<Rightarrow> server \<times> response" where
  "get_profile drv get_err srv token =
     (case profile_lookup drv get_err srv token of
        None \<Rightarrow> (srv, Response 401 (message ''Unauthorized''))
      | Some res \<Rightarrow> profile_callback srv res)"

text \<open>\<^verbatim>\<open>app.get('/api/status', ...)\<close>\<close>

definition get_status :: "server \<Rightarrow> server \<times> response" where
  "get_status srv = (srv, Response 200 (JObj [(''status'', JStr ''Dummy backend with SQLite running'')]))"

text \<open>\<^verbatim>\<open>app.post('/api/students', ...)\<close>\<close>

definition post_students ::
  "err option \<Rightarrow> err option \<Rightarrow> server \<Rightarrow> req_body \<Rightarrow> server \<times> response" where
  "post_students get_err run_err srv b =
     (case db_get get_err (db srv) (bind_email (email b)) of
        Inl e \<Rightarrow> (srv, Response 500 (message_error ''DB error'' e))
      | Inr (Some r) \<Rightarrow> (srv, Response 400 (message ''Student already exists''))
      | Inr None \<Rightarrow>
          (case db_run_insert run_err (db srv) b of
             Inl e \<Rightarrow> (srv, Response 500 (message_error ''Insert error'' e))
           | Inr (d, lastID) \<Rightarrow>
               (srv\<lparr>db := d\<rparr>, Response 200 (message_id ''Student inserted'' lastID))))"

text \<open>\<^verbatim>\<open>app.get('/api/students', ...)\<close>\<close>

definition get_students :: "err option \<Rightarrow> server \<Rightarrow> server \<times> response" where
  "get_students all_err srv =
     (case db_all all_err (db srv) of
        Inl e \<Rightarrow> (srv, Response 500 (message_error ''DB error'' e))
      | Inr rows \<Rightarrow> (srv, Response 200 (JArr rows)))"

text \<open>\<^verbatim>\<open>app.put('/api/students/:id', ...)\<close>\<close>

definition put_students ::
  "err option \<Rightarrow> server \<Rightarrow> ident \<Rightarrow> req_body \<Rightarrow> server \<times> response" where
  "put_students run_err srv i b =
     (case db_run_update run_err (db srv) i b of
        Inl e \<Rightarrow> (srv, Response 500 (message_error ''Update error'' e))
      | Inr d \<Rightarrow> (srv\<lparr>db := d\<rparr>, Response 200 (message ''Student updated successfully'')))"

text \<open>\<^verbatim>\<open>app.delete("/api/students/:id", ...)\<close>\<close>

definition delete_students :: "err option \<Rightarrow> server \<Rightarrow> ident \<Rightarrow> server \<times> response" where
  "delete_students run_err srv i =
     (case db_run_delete run_err (db srv) i of
        Inl e \<Rightarrow> (srv, Response 500 (message_error ''Delete failed'' e))
      | Inr d \<Rightarrow> (srv\<lparr>db := d\<rparr>, Response 200 (message ''Deleted successfully'')))"

subsection \<open>The routes of the application\<close>

text \<open>
  One request, and what the world outside the handler answers while it is served: the
  hashing library, the driver's binding of a non-string parameter, the error (if any) of
  the lookup and of the write, and the clock.
\<close>

datatype request =
    PostRegister req_body
  | PostLogin string string
  | GetProfile "string option"
  | GetStatus
  | PostStudents req_body
  | GetStudents
  | PutStudents ident req_body
  | DeleteStudents ident

record env =
  hashing :: bcrypt
  binding :: "string \<Rightarrow> sqlval"
  lookup_err :: "err option"
  write_err :: "err option"
  clock :: nat

definition handle :: "env \<Rightarrow> server \<Rightarrow> request \<Rightarrow> server \<times> response" where
  "handle w srv rq =
     (case rq of
        PostRegister b \<Rightarrow> post_register (hashing w) (lookup_err w) (write_err w) srv b
      | PostLogin e p \<Rightarrow> post_login (hashing w) (lookup_err w) (clock w) srv e p
      | GetProfile t \<Rightarrow> get_profile (binding w) (lookup_err w) srv t
      | GetStatus \<Rightarrow> get_status srv
      | PostStudents b \<Rightarrow> post_students (lookup_err w) (write_err w) srv b
      | GetStudents \<Rightarrow> get_students (lookup_err w) srv
      | PutStudents i b \<Rightarrow> put_students (write_err w) srv i b
      | DeleteStudents i \<Rightarrow> delete_students (write_err w) srv i)"

fun serve :: "server \<Rightarrow> (env \<times> request) list \<Rightarrow> server" where
  "serve srv [] = srv"
| "serve srv ((w, rq) # rest) = serve (fst (handle w srv rq)) rest"

text \<open>The process starts with an empty \<^verbatim>\<open>sessions\<close> object; a fresh database file has an
  empty table.\<close>

definition initial :: server where
  "initial = \<lparr>db = \<lparr>students = [], sequence = 0\<rparr>, sessions = Map.empty\<rparr>"

subsection \<open>Observations used in the statements\<close>

text \<open>The keys of a JSON object, in order.\<close>

definition keys :: "json \<Rightarrow> string list" where
  "keys j = (case j of JObj kvs \<Rightarrow> map fst kvs | _ \<Rightarrow> [])"

text \<open>The two constraints of the schema: \<^verbatim>\<open>id\<close> is the primary key, \<^verbatim>\<open>email\<close> is UNIQUE,
  which constrains the emails that are not NULL.\<close>

definition unique_ids :: "database \<Rightarrow> bool" where
  "unique_ids d = distinct (map id (students d))"

fun somes :: "'a option list \<Rightarrow> 'a list" where
  "somes [] = []"
| "somes (None # xs) = somes xs"
| "somes (Some x # xs) = x # somes xs"

definition unique_emails :: "database \<Rightarrow> bool" where
  "unique_emails d = distinct (somes (map email (students d)))"

text \<open>Every session entry maps a token that login minted for an email to that email.\<close>

definition minted :: "sessions \<Rightarrow> bool" where
  "minted s = (\<forall>t e. s t = Some e \<longrightarrow> (\<exists>n. t = mint e n))"

section \<open>The web client's hooks\<close>

text \<open>
  \<^verbatim>\<open>useStudents\<close> holds the fetched list and one error slot. The HTTP client \<^verbatim>\<open>api\<close> is
  a parameter: for each call it either throws or resolves with a response.
  \<open>requests\<close> records the calls issued, oldest first.
\<close>

datatype api_call =
    ApiGetStudents
  | ApiPostRegister form_fields
  | ApiPutStudent int form_fields

type_synonym api = "api_call \<Rightarrow> err + response"

record students_hook =
  fetched :: json
  error :: "string option"
  requests :: "api_call list"

definition fetchStudents :: "api \<Rightarrow> students_hook \<Rightarrow> students_hook" where
  "fetchStudents net h =
     (let h1 = h\<lparr>requests := requests h @ [ApiGetStudents]\<rparr> in
      case net ApiGetStudents of
        Inr response \<Rightarrow> h1\<lparr>fetched := body response\<rparr>
      | Inl e \<Rightarrow> h1\<lparr>error := Some ''Failed to fetch students''\<rparr>)"

definition addStudent :: "api \<Rightarrow> students_hook \<Rightarrow> form_fields \<Rightarrow> students_hook" where
  "addStudent net h s =
     (let h1 = h\<lparr>requests := requests h @ [ApiPostRegister s]\<rparr> in
      case net (ApiPostRegister s) of
        Inr response \<Rightarrow>
          if status response = 201 \<or> status response = 200 then fetchStudents net h1 else h1
      | Inl e \<Rightarrow> h1\<lparr>error := Some ''Failed to register student''\<rparr>)"

definition updateStudent :: "api \<Rightarrow> students_hook \<Rightarrow> int \<Rightarrow> form_fields \<Rightarrow> students_hook" where
  "updateStudent net h i updated =
     (let h1 = h\<lparr>requests := requests h @ [ApiPutStudent i updated]\<rparr> in
      case net (ApiPutStudent i updated) of
        Inr response \<Rightarrow> if status response = 200 then fetchStudents net h1 else h1
      | Inl e \<Rightarrow> h1\<lparr>error := Some ''Failed to update student''\<rparr>)"

text \<open>\<^verbatim>\<open>useStudentForm\<close>: the record being edited and the optional editing identifier.\<close>

record form_hook =
  form :: form_fields
  editId :: "int option"

definition blank :: form_fields where
  "blank = \<lparr>firstName = [], lastName = [], username = [], email = [], contact = [],
             password = []\<rparr>"

definition resetForm :: "form_hook \<Rightarrow> form_hook" where
  "resetForm f = f\<lparr>form := blank, editId := None\<rparr>"

definition handleSubmit :: "api \<Rightarrow> form_hook \<times> students_hook \<Rightarrow> form_hook \<times> students_hook" where
  "handleSubmit net st =
     (let f = fst st; h = snd st;
          h1 = (case editId f of
                  Some i \<Rightarrow> updateStudent net h i (form f)
                | None \<Rightarrow> addStudent net h (form f))
      in (resetForm f, h1))"

section \<open>Sample data\<close>

definition example_bcrypt :: bcrypt where
  "example_bcrypt =
     \<lparr>bcrypt_hash = (\<lambda>p r. Inr (''$2b$10$'' @ rev p)),
      bcrypt_compare = (\<lambda>p h. Inr (h = ''$2b$10$'' @ rev p))\<rparr>"

definition example_drv :: "string \<Rightarrow> sqlval" where
  "example_drv k = SqlText ''[object Object]''"

definition alice :: req_body where
  "alice = \<lparr>firstName = ''Alice'', lastName = ''Ang'', username = ''alice'',
             email = Some ''alice@example.com'', contact = ''0911'', password = ''secret''\<rparr>"

definition bob :: req_body where
  "bob = \<lparr>firstName = ''Bob'', lastName = ''Bau'', username = ''bob'',
           email = Some ''bob@example.com'', contact = ''0922'', password = ''hunter2''\<rparr>"

definition alice_form :: form_fields where
  "alice_form = \<lparr>firstName = ''Alice'', lastName = ''Ang'', username = ''alice'',
                  email = ''alice@example.com'', contact = ''0911'', password = ''secret''\<rparr>"

definition bob_form :: form_fields where
  "bob_form = \<lparr>firstName = ''Bob'', lastName = ''Bau'', username = ''bob'',
                email = ''bob@example.com'', contact = ''0922'', password = ''hunter2''\<rparr>"

definition two_students :: server where
  "two_students =
     \<lparr>db = \<lparr>students =
              [\<lparr>firstName = ''Alice'', lastName = ''Ang'', username = ''alice'',
                email = Some ''alice@example.com'', contact = ''0911'',
                password = ''$2b$10$terces'', id = 1\<rparr>,
               \<lparr>firstName = ''Bob'', lastName = ''Bau'', username = ''bob'',
                email = Some ''bob@example.com'', contact = ''0922'', password = ''hunter2'',
                id = 2\<rparr>],
            sequence = 2\<rparr>,
      sessions = Map.empty\<rparr>"

section \<open>Facts about the storage model\<close>

lemma find_email_None:
  "find (\<lambda>r. email r = Some t) rs = None \<longleftrightarrow> Some t \<notin> set (map email rs)"
  by (induction rs) auto

lemma db_get_None_iff:
  "db_get g d (SqlText t) = Inr None \<longleftrightarrow> g = None \<and> Some t \<notin> set (map email (students d))"
  by (cases g) (simp_all add: db_get_def find_email_None)

lemma db_get_email_None_iff:
  "db_get g d (bind_email e) = Inr None \<longleftrightarrow>
     g = None \<and> (e = None \<or> e \<notin> set (map email (students d)))"
proof (cases e)
  case None
  then show ?thesis by (cases g) (simp_all add: db_get_def bind_email_def)
next
  case (Some t)
  then show ?thesis using db_get_None_iff[of g d t] by (simp add: bind_email_def)
qed

lemma fold_max_ge: "(a::int) \<le> fold max xs a"
  by (induction xs arbitrary: a) (auto intro: order_trans[OF max.cobounded2])

lemma fold_max_mem: "x \<in> set xs \<Longrightarrow> (x::int) \<le> fold max xs a"
proof (induction xs arbitrary: a)
  case Nil
  then show ?case by simp
next
  case (Cons y ys)
  show ?case
  proof (cases "x = y")
    case True
    have "y \<le> max y a" by simp
    also have "\<dots> \<le> fold max ys (max y a)" by (rule fold_max_ge)
    finally show ?thesis using True by simp
  next
    case False
    with Cons show ?thesis by simp
  qed
qed

lemma next_id_fresh: "r \<in> set (students d) \<Longrightarrow> id r < next_id d"
  using fold_max_mem[of "id r" "map id (students d)" 0] by (simp add: next_id_def)

lemma next_id_notin: "next_id d \<notin> set (map id (students d))"
  using next_id_fresh[of _ d] by fastforce

section \<open>The two insert paths\<close>



section \<open>The constraints of the schema\<close>

lemma db_get_Some_mem:
  "db_get g d (SqlText t) = Inr (Some r) \<Longrightarrow> r \<in> set (students d) \<and> email r = Some t"
  by (cases g) (auto simp: db_get_def find_Some_iff)

lemma db_get_found:
  "Some t \<in> set (map email (students d)) \<Longrightarrow> \<exists>r. db_get None d (SqlText t) = Inr (Some r)"
  using find_email_None[of t "students d"] by (auto simp: db_get_def)

lemma set_somes: "set (somes xs) = {x. Some x \<in> set xs}"
  by (induction xs rule: somes.induct) auto

lemma somes_append: "somes (xs @ ys) = somes xs @ somes ys"
  by (induction xs rule: somes.induct) auto

lemma db_run_insert_constraints:
  assumes "db_run_insert g d v = Inr (d', n)" "unique_ids d" "unique_emails d"
  shows "unique_ids d' \<and> unique_emails d'"
proof (cases g)
  case (Some x)
  then show ?thesis using assms by (simp add: db_run_insert_def)
next
  case None
  have ok: "email v = None \<or> email v \<notin> set (map email (students d))"
    using assms(1) None by (auto simp: db_run_insert_def split: if_splits)
  have d': "students d' = students d @
      [\<lparr>firstName = firstName v, lastName = lastName v, username = username v,
        email = email v, contact = contact v, password = password v, id = next_id d\<rparr>]"
    using assms(1) None ok by (auto simp: db_run_insert_def Let_def split: if_splits)
  have "unique_ids d'"
    using assms(2) next_id_notin[of d] by (simp add: unique_ids_def d')
  moreover have "unique_emails d'"
  proof (cases "email v")
    case None
    then show ?thesis using assms(3) by (simp add: unique_emails_def d' somes_append)
  next
    case (Some t)
    then have "t \<notin> set (somes (map email (students d)))" using ok by (simp add: set_somes)
    then show ?thesis using assms(3) Some by (simp add: unique_emails_def d' somes_append)
  qed
  ultimately show ?thesis by simp
qed

lemma update_email_column:
  "map email (map (\<lambda>r. if matches i r
            then \<lparr>firstName = a, lastName = b, username = c,
                  email = e, contact = f, password = p, id = id r\<rparr>
            else r) rs) = map (\<lambda>r. if matches i r then e else email r) rs"
  by (induction rs) auto

lemma null_keeps_distinct:
  "distinct (somes (map g rs)) \<Longrightarrow>
   distinct (somes (map (\<lambda>r. if P r then None else g r) rs))"
proof (induction rs)
  case Nil
  then show ?case by simp
next
  case (Cons r rs)
  show ?case
  proof (cases "g r")
    case None
    then show ?thesis using Cons by simp
  next
    case (Some t)
    then have "t \<notin> set (somes (map g rs))" and "distinct (somes (map g rs))"
      using Cons.prems by simp_all
    moreover have "set (somes (map (\<lambda>r. if P r then None else g r) rs)) \<subseteq> set (somes (map g rs))"
      by (auto simp: set_somes split: if_splits)
    ultimately show ?thesis using Cons.IH Some by auto
  qed
qed

lemma fresh_keeps_distinct:
  assumes "distinct (map k rs)" "distinct (somes (map g rs))"
    and "\<forall>r\<in>set rs. k r \<noteq> j \<longrightarrow> g r \<noteq> Some t"
  shows "distinct (somes (map (\<lambda>r. if k r = j then Some t else g r) rs))"
  using assms
proof (induction rs)
  case Nil
  then show ?case by simp
next
  case (Cons r rs)
  have tail: "distinct (somes (map g rs))"
    using Cons.prems(2) by (cases "g r") simp_all
  have ih: "distinct (somes (map (\<lambda>r. if k r = j then Some t else g r) rs))"
    using Cons.IH Cons.prems(1,3) tail by simp
  show ?case
  proof (cases "k r = j")
    case True
    have "k r \<notin> k ` set rs" using Cons.prems(1) by simp
    then have "\<forall>r'\<in>set rs. k r' \<noteq> j" using True by blast
    then have "t \<notin> set (somes (map (\<lambda>r. if k r = j then Some t else g r) rs))"
      using Cons.prems(3) by (auto simp: set_somes)
    then show ?thesis using ih True by simp
  next
    case False
    show ?thesis
    proof (cases "g r")
      case None
      then show ?thesis using ih False by simp
    next
      case (Some u)
      then have "u \<noteq> t" using Cons.prems(3) False by auto
      moreover have "u \<notin> set (somes (map g rs))" using Cons.prems(2) Some by simp
      ultimately have "u \<notin> set (somes (map (\<lambda>r. if k r = j then Some t else g r) rs))"
        by (auto simp: set_somes split: if_splits)
      then show ?thesis using ih False Some by simp
    qed
  qed
qed

lemma update_keeps_emails_distinct:
  assumes "distinct (map id rs)" "distinct (somes (map email rs))"
    and "\<forall>r\<in>set rs. \<not> matches i r \<longrightarrow> email v = None \<or> email r \<noteq> email v"
  shows "distinct (somes (map email (map (\<lambda>r. if matches i r
            then \<lparr>firstName = firstName v, lastName = lastName v, username = username v,
                  email = email v, contact = contact v, password = password v, id = id r\<rparr>
            else r) rs)))"
proof (cases "email v")
  case None
  show ?thesis
    unfolding update_email_column None
    by (rule null_keeps_distinct[OF assms(2)])
next
  case (Some t)
  show ?thesis
  proof (cases i)
    case None
    have "map (\<lambda>r. if matches i r then email v else email r) rs = map email rs"
      using None by (simp add: matches_def)
    show ?thesis unfolding update_email_column \<open>map (\<lambda>r. if matches i r then email v else email r) rs = map email rs\<close>
      by (rule assms(2))
  next
    case j: (Some j)
    have "\<forall>r\<in>set rs. id r \<noteq> j \<longrightarrow> email r \<noteq> Some t"
      using assms(3) Some j by (auto simp: matches_def)
    from fresh_keeps_distinct[OF assms(1,2) this]
    have "distinct (somes (map (\<lambda>r. if id r = j then Some t else email r) rs))" .
    moreover have "(\<lambda>r. if matches i r then email v else email r) =
                   (\<lambda>r. if id r = j then Some t else email r)"
      using Some j by (auto simp: matches_def)
    ultimately show ?thesis unfolding update_email_column by simp
  qed
qed

lemma update_no_match:
  "\<not> list_ex (matches i) rs \<Longrightarrow> map (\<lambda>r. if matches i r then f r else r) rs = rs"
  by (induction rs) auto

lemma update_keeps_ids:
  "map id (map (\<lambda>r. if matches i r
            then \<lparr>firstName = firstName v, lastName = lastName v, username = username v,
                  email = email v, contact = contact v, password = password v, id = id r\<rparr>
            else r) rs) = map id rs"
  by (induction rs) auto

lemma db_run_update_constraints:
  assumes "db_run_update g d i v = Inr d'" "unique_ids d" "unique_emails d"
  shows "unique_ids d' \<and> unique_emails d'"
proof (cases "list_ex (matches i) (students d)")
  case False
  then show ?thesis using assms
    by (cases g) (auto simp: db_run_update_def update_no_match unique_ids_def unique_emails_def)
next
  case True
  then have nc: "\<forall>r\<in>set (students d). \<not> matches i r \<longrightarrow> email v = None \<or> email r \<noteq> email v"
    using assms(1) by (cases g) (auto simp: db_run_update_def list_ex_iff split: if_splits)
  have d': "students d' = map (\<lambda>r. if matches i r
            then \<lparr>firstName = firstName v, lastName = lastName v, username = username v,
                  email = email v, contact = contact v, password = password v, id = id r\<rparr>
            else r) (students d)"
    using assms(1) by (cases g) (auto simp: db_run_update_def split: if_splits)
  show ?thesis
    using update_keeps_emails_distinct[OF _ _ nc] assms(2,3)
    unfolding unique_ids_def unique_emails_def d' update_keeps_ids by simp
qed

lemma delete_keeps_emails_distinct:
  "distinct (somes (map g rs)) \<Longrightarrow> distinct (somes (map g (filter P rs)))"
proof (induction rs)
  case Nil
  then show ?case by simp
next
  case (Cons r rs)
  have sub: "set (somes (map g (filter P rs))) \<subseteq> set (somes (map g rs))"
    by (auto simp: set_somes)
  show ?case
  proof (cases "g r")
    case None
    then show ?thesis using Cons by simp
  next
    case (Some t)
    then show ?thesis using Cons sub by auto
  qed
qed

lemma db_run_delete_constraints:
  assumes "db_run_delete g d i = Inr d'" "unique_ids d" "unique_emails d"
  shows "unique_ids d' \<and> unique_emails d'"
  using assms
  by (cases g)
     (auto simp: db_run_delete_def unique_ids_def unique_emails_def distinct_map_filter
                 delete_keeps_emails_distinct)

lemma handle_constraints:
  assumes "unique_ids (db srv)" "unique_emails (db srv)"
  shows "unique_ids (db (fst (handle w srv rq))) \<and> unique_emails (db (fst (handle w srv rq)))"
proof (cases rq)
  case (PostRegister b)
  then show ?thesis using assms db_run_insert_constraints
    by (auto simp: handle_def post_register_def split: sum.splits option.splits)
next
  case (PostLogin e p)
  then show ?thesis using assms
    by (auto simp: handle_def post_login_def Let_def split: sum.splits option.splits bool.splits)
next
  case (GetProfile t)
  then show ?thesis using assms
    by (auto simp: handle_def get_profile_def profile_callback_def split: sum.splits option.splits)
next
  case GetStatus
  then show ?thesis using assms by (simp add: handle_def get_status_def)
next
  case (PostStudents b)
  then show ?thesis using assms db_run_insert_constraints
    by (auto simp: handle_def post_students_def split: sum.splits option.splits)
next
  case GetStudents
  then show ?thesis using assms
    by (auto simp: handle_def get_students_def split: sum.splits)
next
  case (PutStudents i b)
  then show ?thesis using assms db_run_update_constraints
    by (auto simp: handle_def put_students_def split: sum.splits)
next
  case (DeleteStudents i)
  then show ?thesis using assms db_run_delete_constraints
    by (auto simp: handle_def delete_students_def split: sum.splits)
qed

lemma serve_constraints:
  "unique_ids (db srv) \<Longrightarrow> unique_emails (db srv) \<Longrightarrow>
   unique_ids (db (serve srv trace)) \<and> unique_emails (db (serve srv trace))"
proof (induction trace arbitrary: srv)
  case Nil
  then show ?case by simp
next
  case (Cons a trace)
  obtain w rq where a: "a = (w, rq)" by (cases a)
  show ?case using Cons.IH[of "fst (handle w srv rq)"] handle_constraints[OF Cons.prems, of w rq]
    by (simp add: a)
qed

lemma duplicate_rejected:
  assumes "email b \<noteq> None" "email b \<in> set (map email (students (db srv)))"
  shows "post_register lib None run_err srv b = (srv, Response 400 (message ''User already exists''))"
    and "post_students None run_err srv b = (srv, Response 400 (message ''Student already exists''))"
    and "fst (post_register lib get_err run_err srv b) = srv"
    and "fst (post_students get_err run_err srv b) = srv"
proof -
  obtain t where t: "email b = Some t" using assms(1) by auto
  obtain r where "db_get None (db srv) (SqlText t) = Inr (Some r)"
    using db_get_found[of t "db srv"] assms(2) t by auto
  then have r: "db_get None (db srv) (bind_email (email b)) = Inr (Some r)"
    by (simp add: t bind_email_def)
  show "post_register lib None run_err srv b = (srv, Response 400 (message ''User already exists''))"
    by (simp add: post_register_def r)
  show "post_students None run_err srv b = (srv, Response 400 (message ''Student already exists''))"
    by (simp add: post_students_def r)
  show "fst (post_register lib get_err run_err srv b) = srv"
    using r by (cases get_err) (simp_all add: post_register_def db_get_def)
  show "fst (post_students get_err run_err srv b) = srv"
    using r by (cases get_err) (simp_all add: post_students_def db_get_def)
qed

lemma without_email_inserted:
  assumes "email n = None"
  shows "post_students None None srv n =
           (srv\<lparr>db := (db srv)\<lparr>students := students (db srv) @
                   [\<lparr>firstName = firstName n, lastName = lastName n, username = username n,
                     email = None, contact = contact n, password = password n,
                     id = next_id (db srv)\<rparr>],
                 sequence := next_id (db srv)\<rparr>\<rparr>,
            Response 200 (message_id ''Student inserted'' (next_id (db srv))))"
    and "bcrypt_hash lib (password n) SALT_ROUNDS = Inr h \<Longrightarrow>
         post_register lib None None srv n =
           (srv\<lparr>db := (db srv)\<lparr>students := students (db srv) @
                   [\<lparr>firstName = firstName n, lastName = lastName n, username = username n,
                     email = None, contact = contact n, password = h,
                     id = next_id (db srv)\<rparr>],
                 sequence := next_id (db srv)\<rparr>\<rparr>,
            Response 200 (message_id ''Registered successfully'' (next_id (db srv))))"
  using assms
  by (simp_all add: post_students_def post_register_def db_get_def bind_email_def
        db_run_insert_def Let_def)

text \<open>
  C1, as the code has it. Email uniqueness is an invariant of the table for the rows that have
  an email: from a table that meets the schema's two constraints, and so from the empty table
  of a fresh database, every sequence of requests (whatever the storage, the hashing library
  and the clock answer) leaves the emails that are not null pairwise distinct. An insert
  through \<^verbatim>\<open>POST /api/register\<close> or \<^verbatim>\<open>POST /api/students\<close> whose body has an email that a
  stored row already holds is answered with status 400 when the lookup runs, and writes
  nothing whatever the storage answers. Registering an unused email and then registering
  the same email again answers 200 with the new rowid and then 400, and the table has gained
  exactly one row. A body without an email (absent or null) is never taken for a duplicate:
  when the storage and the hashing answer, either path appends a row whose email is null
  and answers 200 with its rowid.
\<close>

theorem email_uniqueness:
  "(unique_ids (db srv) \<and> unique_emails (db srv) \<longrightarrow> unique_emails (db (serve srv trace)))
   \<and> unique_emails (db (serve initial trace))
   \<and> (email b \<noteq> None \<and> email b \<in> set (map email (students (db srv))) \<longrightarrow>
         post_register lib None run_err srv b =
           (srv, Response 400 (message ''User already exists''))
       \<and> post_students None run_err srv b =
           (srv, Response 400 (message ''Student already exists''))
       \<and> fst (post_register lib get_err run_err srv b) = srv
       \<and> fst (post_students get_err run_err srv b) = srv)
   \<and> (email c \<noteq> None \<and> email c \<notin> set (map email (students (db srv)))
        \<and> bcrypt_hash lib (password c) SALT_ROUNDS = Inr h \<and> email c' = email c \<longrightarrow>
         (\<exists>srv1. post_register lib None None srv c =
                   (srv1, Response 200 (message_id ''Registered successfully'' (next_id (db srv))))
               \<and> post_register lib' None run_err' srv1 c' =
                   (srv1, Response 400 (message ''User already exists''))
               \<and> length (students (db srv1)) = length (students (db srv)) + 1))
   \<and> (email n = None \<longrightarrow>
         snd (post_students None None srv n) =
           Response 200 (message_id ''Student inserted'' (next_id (db srv)))
       \<and> map email (students (db (fst (post_students None None srv n)))) =
           map email (students (db srv)) @ [None]
       \<and> (bcrypt_hash lib (password n) SALT_ROUNDS = Inr h' \<longrightarrow>
            snd (post_register lib None None srv n) =
              Response 200 (message_id ''Registered successfully'' (next_id (db srv)))
          \<and> map email (students (db (fst (post_register lib None None srv n)))) =
              map email (students (db srv)) @ [None]))"
proof -
  have inv: "unique_emails (db (serve srv trace))"
    if "unique_ids (db srv)" "unique_emails (db srv)"
    using serve_constraints[OF that] by simp
  have ini: "unique_emails (db (serve initial trace))"
    using serve_constraints[of initial trace]
    by (simp add: initial_def unique_ids_def unique_emails_def)
  have twice: "\<exists>srv1. post_register lib None None srv c =
                   (srv1, Response 200 (message_id ''Registered successfully'' (next_id (db srv))))
               \<and> post_register lib' None run_err' srv1 c' =
                   (srv1, Response 400 (message ''User already exists''))
               \<and> length (students (db srv1)) = length (students (db srv)) + 1"
    if some: "email c \<noteq> None" and new: "email c \<notin> set (map email (students (db srv)))"
      and h: "bcrypt_hash lib (password c) SALT_ROUNDS = Inr h" and c': "email c' = email c"
  proof -
    define srv1 where "srv1 = fst (post_register lib None None srv c)"
    have none: "db_get None (db srv) (bind_email (email c)) = Inr None"
      using new by (simp add: db_get_email_None_iff)
    have first: "post_register lib None None srv c =
        (srv1, Response 200 (message_id ''Registered successfully'' (next_id (db srv))))"
      unfolding srv1_def using new h
      by (simp add: post_register_def none db_run_insert_def Let_def)
    have rows: "students (db srv1) = students (db srv) @
        [\<lparr>firstName = firstName c, lastName = lastName c, username = username c,
          email = email c, contact = contact c, password = h, id = next_id (db srv)\<rparr>]"
      unfolding srv1_def using new h
      by (simp add: post_register_def none db_run_insert_def Let_def)
    have "email c' \<in> set (map email (students (db srv1)))"
      by (simp add: rows c')
    moreover have "email c' \<noteq> None" using some c' by simp
    ultimately have "post_register lib' None run_err' srv1 c' =
        (srv1, Response 400 (message ''User already exists''))"
      by (rule duplicate_rejected(1)[rotated])
    with first rows show ?thesis by auto
  qed
  have without: "snd (post_students None None srv n) =
           Response 200 (message_id ''Student inserted'' (next_id (db srv)))
       \<and> map email (students (db (fst (post_students None None srv n)))) =
           map email (students (db srv)) @ [None]
       \<and> (bcrypt_hash lib (password n) SALT_ROUNDS = Inr h' \<longrightarrow>
            snd (post_register lib None None srv n) =
              Response 200 (message_id ''Registered successfully'' (next_id (db srv)))
          \<and> map email (students (db (fst (post_register lib None None srv n)))) =
              map email (students (db srv)) @ [None])"
    if "email n = None"
    using without_email_inserted(1)[OF that, where srv = srv]
      without_email_inserted(2)[OF that, where srv = srv and lib = lib and h = h']
    by simp
  show ?thesis
    using inv ini twice without duplicate_rejected[of b srv] by blast
qed

theorem email_uniqueness_witness:
  "unique_ids (db two_students) \<and> unique_emails (db two_students)
   \<and> unique_emails (db (serve two_students
        [(\<lparr>hashing = example_bcrypt, binding = example_drv, lookup_err = None, write_err = None,
           clock = 5\<rparr>, PutStudents (Some 2) (bob\<lparr>email := Some ''alice@example.com''\<rparr>))]))
   \<and> email alice \<noteq> None
   \<and> email alice \<in> set (map email (students (db two_students)))
   \<and> post_register example_bcrypt None None two_students alice =
        (two_students, Response 400 (message ''User already exists''))
   \<and> post_students None None two_students alice =
        (two_students, Response 400 (message ''Student already exists''))
   \<and> email (bob\<lparr>email := Some ''carol@example.com''\<rparr>) \<noteq> None
   \<and> email (bob\<lparr>email := Some ''carol@example.com''\<rparr>)
        \<notin> set (map email (students (db two_students)))
   \<and> bcrypt_hash example_bcrypt (password (bob\<lparr>email := Some ''carol@example.com''\<rparr>)) SALT_ROUNDS
        = Inr ''$2b$10$2retnuh''
   \<and> snd (post_register example_bcrypt None None two_students
             (bob\<lparr>email := Some ''carol@example.com''\<rparr>))
        = Response 200 (message_id ''Registered successfully'' 3)
   \<and> snd (post_register example_bcrypt None None
             (fst (post_register example_bcrypt None None two_students
                     (bob\<lparr>email := Some ''carol@example.com''\<rparr>)))
             (alice\<lparr>email := Some ''carol@example.com''\<rparr>))
        = Response 400 (message ''User already exists'')
   \<and> email (alice\<lparr>email := None\<rparr>) = None
   \<and> snd (post_students None None two_students (alice\<lparr>email := None\<rparr>))
        = Response 200 (message_id ''Student inserted'' 3)"
  using email_uniqueness
     [where srv = two_students
        and trace = "[(\<lparr>hashing = example_bcrypt, binding = example_drv, lookup_err = None,
           write_err = None, clock = 5\<rparr>,
           PutStudents (Some 2) (bob\<lparr>email := Some ''alice@example.com''\<rparr>))]"
        and b = alice and lib = example_bcrypt and run_err = None and get_err = None
        and c = "bob\<lparr>email := Some ''carol@example.com''\<rparr>" and h = "''$2b$10$2retnuh''"
        and c' = "alice\<lparr>email := Some ''carol@example.com''\<rparr>" and lib' = example_bcrypt
        and run_err' = None and n = "alice\<lparr>email := None\<rparr>" and h' = "''$2b$10$terces''"]
  by (simp add: two_students_def alice_def bob_def example_bcrypt_def unique_ids_def
        unique_emails_def next_id_def post_register_def post_students_def db_get_def
        bind_email_def db_run_insert_def Let_def)

text \<open>
  Without the restriction the property fails for a body that has no email: registering it twice
  answers 200 both times and leaves two rows whose emails are both null, and so does
  inserting it twice through \<^verbatim>\<open>POST /api/students\<close>.
\<close>

theorem email_uniqueness_counterexample:
  "snd (post_register example_bcrypt None None initial (alice\<lparr>email := None\<rparr>))
     = Response 200 (message_id ''Registered successfully'' 1)
   \<and> snd (post_register example_bcrypt None None
            (fst (post_register example_bcrypt None None initial (alice\<lparr>email := None\<rparr>)))
            (alice\<lparr>email := None\<rparr>))
     = Response 200 (message_id ''Registered successfully'' 2)
   \<and> map email (students (db (fst (post_register example_bcrypt None None
            (fst (post_register example_bcrypt None None initial (alice\<lparr>email := None\<rparr>)))
            (alice\<lparr>email := None\<rparr>)))))
     = [None, None]
   \<and> \<not> distinct (map email (students (db (fst (post_register example_bcrypt None None
            (fst (post_register example_bcrypt None None initial (alice\<lparr>email := None\<rparr>)))
            (alice\<lparr>email := None\<rparr>))))))
   \<and> snd (post_students None None
            (fst (post_students None None initial (alice\<lparr>email := None\<rparr>)))
            (alice\<lparr>email := None\<rparr>))
     = Response 200 (message_id ''Student inserted'' 2)
   \<and> length (students (db (fst (post_students None None
            (fst (post_students None None initial (alice\<lparr>email := None\<rparr>)))
            (alice\<lparr>email := None\<rparr>))))) = 2"
  by (simp add: post_register_def post_students_def db_get_def bind_email_def initial_def
        alice_def example_bcrypt_def db_run_insert_def next_id_def Let_def)

section \<open>Login\<close>

text \<open>
  C2. A login for an email that no stored row holds, and a login for an email of a stored
  row whose password does not verify against the stored hash (\<^verbatim>\<open>bcrypt.compare\<close> answers
  false, or fails), get the same response: status 401 with the body
  \<^verbatim>\<open>{"message": "Invalid credentials"}\<close>; neither changes the server.
\<close>

theorem login_failures_identical:
  assumes "db_get g1 (db s1) (SqlText e1) = Inr None"
    and "db_get g2 (db s2) (SqlText e2) = Inr (Some user)"
    and "bcrypt_compare lib2 p2 (password user) \<noteq> Inr True"
  shows "post_login lib1 g1 n1 s1 e1 p1 = (s1, Response 401 (message ''Invalid credentials''))
       \<and> post_login lib2 g2 n2 s2 e2 p2 = (s2, Response 401 (message ''Invalid credentials''))
       \<and> snd (post_login lib1 g1 n1 s1 e1 p1) = snd (post_login lib2 g2 n2 s2 e2 p2)"
proof -
  have a: "post_login lib1 g1 n1 s1 e1 p1 = (s1, Response 401 (message ''Invalid credentials''))"
    by (simp add: post_login_def assms(1))
  have b: "post_login lib2 g2 n2 s2 e2 p2 = (s2, Response 401 (message ''Invalid credentials''))"
    using assms(3) by (simp add: post_login_def assms(2) split: sum.splits bool.splits)
  show ?thesis by (simp add: a b)
qed

theorem login_failures_identical_witness:
  "db_get None (db two_students) (SqlText ''nobody@example.com'') = Inr None
   \<and> db_get None (db two_students) (SqlText ''alice@example.com'') =
        Inr (Some \<lparr>firstName = ''Alice'', lastName = ''Ang'', username = ''alice'',
                   email = Some ''alice@example.com'', contact = ''0911'',
                   password = ''$2b$10$terces'', id = 1\<rparr>)
   \<and> bcrypt_compare example_bcrypt ''guess'' ''$2b$10$terces'' \<noteq> Inr True
   \<and> post_login example_bcrypt None 7 two_students ''nobody@example.com'' ''secret'' =
        (two_students, Response 401 (message ''Invalid credentials''))
   \<and> post_login example_bcrypt None 9 two_students ''alice@example.com'' ''guess'' =
        (two_students, Response 401 (message ''Invalid credentials''))"
  using login_failures_identical
     [where ?g1.0 = None and ?s1.0 = two_students and ?e1.0 = "''nobody@example.com''"
        and ?g2.0 = None and ?s2.0 = two_students and ?e2.0 = "''alice@example.com''"
        and user = "\<lparr>firstName = ''Alice'', lastName = ''Ang'', username = ''alice'',
                   email = Some ''alice@example.com'', contact = ''0911'',
                   password = ''$2b$10$terces'', id = 1\<rparr>"
        and ?lib2.0 = example_bcrypt and ?p2.0 = "''guess''" and ?lib1.0 = example_bcrypt
        and ?n1.0 = 7 and ?p1.0 = "''secret''" and ?n2.0 = 9]
  by (simp add: db_get_def two_students_def example_bcrypt_def)

subsection \<open>Tokens\<close>

lemma digit_in_digits: "k < 10 \<Longrightarrow> digit k \<in> set ''0123456789''"
  unfolding digit_def by (rule nth_mem) simp

lemma digit_not_hyphen: "k < 10 \<Longrightarrow> digit k \<noteq> CHR ''-''"
  using digit_in_digits[of k] by auto

lemma decimal_no_hyphen: "CHR ''-'' \<notin> set (decimal n)"
proof (induction n rule: decimal.induct)
  case (1 n)
  show ?case
  proof (cases "n < 10")
    case True
    then show ?thesis using digit_not_hyphen[of n] by (simp add: decimal.simps[of n])
  next
    case False
    then show ?thesis using 1 digit_not_hyphen[of "n mod 10"]
      by (simp add: decimal.simps[of n])
  qed
qed

lemma dropWhile_upto: "c \<notin> set zs \<Longrightarrow> dropWhile (\<lambda>x. x \<noteq> c) (zs @ c # ws) = c # ws"
  by (induction zs) auto

lemma split_at_last:
  assumes "xs @ c # ys = xs' @ c # ys'" "c \<notin> set ys" "c \<notin> set ys'"
  shows "xs = xs'"
proof -
  have "dropWhile (\<lambda>x. x \<noteq> c) (rev (xs @ c # ys)) = c # rev xs"
    using assms(2) dropWhile_upto[of c "rev ys" "rev xs"] by simp
  moreover have "dropWhile (\<lambda>x. x \<noteq> c) (rev (xs' @ c # ys')) = c # rev xs'"
    using assms(3) dropWhile_upto[of c "rev ys'" "rev xs'"] by simp
  ultimately show ?thesis using assms(1) by simp
qed

lemma mint_email: "mint e n = mint e' n' \<Longrightarrow> e = e'"
  unfolding mint_def using split_at_last[of e "CHR ''-''" "decimal n" e' "decimal n'"]
  by (simp add: decimal_no_hyphen)

lemma mint_not_proto: "mint e n \<noteq> ''__proto__''"
proof
  assume "mint e n = ''__proto__''"
  then have "CHR ''-'' \<in> set ''__proto__''" unfolding mint_def by (metis in_set_conv_decomp append_Cons append_Nil)
  then show False by simp
qed

lemma sessions_put_mint: "sessions_put s (mint e n) e = s(mint e n \<mapsto> e)"
  by (simp add: sessions_put_def mint_not_proto)

lemma post_login_sessions:
  "sessions (fst (post_login lib g n srv e p)) = sessions srv
   \<or> sessions (fst (post_login lib g n srv e p)) = (sessions srv)(mint e n \<mapsto> e)"
  by (auto simp: post_login_def Let_def sessions_put_mint split: sum.splits option.splits bool.splits)

lemma minted_update: "minted s \<Longrightarrow> minted (s(mint e n \<mapsto> e))"
  unfolding minted_def by auto

lemma handle_sessions:
  "sessions (fst (handle w srv rq)) = sessions srv
   \<or> (\<exists>e n. sessions (fst (handle w srv rq)) = (sessions srv)(mint e n \<mapsto> e))"
proof (cases rq)
  case (PostRegister b)
  then show ?thesis
    by (auto simp: handle_def post_register_def split: sum.splits option.splits)
next
  case (PostLogin e p)
  then show ?thesis using post_login_sessions[of "hashing w" "lookup_err w" "clock w" srv e p]
    by (auto simp: handle_def)
next
  case (GetProfile t)
  then show ?thesis
    by (auto simp: handle_def get_profile_def profile_callback_def split: sum.splits option.splits)
next
  case GetStatus
  then show ?thesis by (simp add: handle_def get_status_def)
next
  case (PostStudents b)
  then show ?thesis
    by (auto simp: handle_def post_students_def split: sum.splits option.splits)
next
  case GetStudents
  then show ?thesis by (auto simp: handle_def get_students_def split: sum.splits)
next
  case (PutStudents i b)
  then show ?thesis by (auto simp: handle_def put_students_def split: sum.splits)
next
  case (DeleteStudents i)
  then show ?thesis by (auto simp: handle_def delete_students_def split: sum.splits)
qed

lemma serve_minted: "minted (sessions srv) \<Longrightarrow> minted (sessions (serve srv trace))"
proof (induction trace arbitrary: srv)
  case Nil
  then show ?case by simp
next
  case (Cons a trace)
  obtain w rq where a: "a = (w, rq)" by (cases a)
  have "minted (sessions (fst (handle w srv rq)))"
    using handle_sessions[of w srv rq] Cons.prems minted_update by auto
  then show ?case using Cons.IH by (simp add: a)
qed

text \<open>
  C7, as the code has it. On every successful login (the lookup finds a row for the email and
  \<^verbatim>\<open>bcrypt.compare\<close> answers true) the handler mints the token made of the email, a hyphen
  and the current time in decimal, in that order; the session map afterwards is the one
  before with the token mapped to the email, so every other key is as before, and in a
  session map built by logins (as every map reached from the start of the process is) no
  entry present before has changed; the body of the response carries exactly that token.
\<close>

theorem login_mints_token:
  assumes "db_get get_err (db srv) (SqlText e) = Inr (Some user)"
    and "bcrypt_compare lib p (password user) = Inr True"
  shows "post_login lib get_err now srv e p =
           (srv\<lparr>sessions := (sessions srv)(e @ ''-'' @ decimal now \<mapsto> e)\<rparr>,
            Response 200 (JObj [(''token'', JStr (e @ ''-'' @ decimal now))]))
       \<and> (\<forall>t. t \<noteq> e @ ''-'' @ decimal now \<longrightarrow>
             sessions (fst (post_login lib get_err now srv e p)) t = sessions srv t)
       \<and> (minted (sessions srv) \<longrightarrow>
            (\<forall>t e'. sessions srv t = Some e' \<longrightarrow>
               sessions (fst (post_login lib get_err now srv e p)) t = Some e'))
       \<and> minted (sessions (serve initial trace))"
proof -
  have a: "post_login lib get_err now srv e p =
           (srv\<lparr>sessions := (sessions srv)(mint e now \<mapsto> e)\<rparr>,
            Response 200 (JObj [(''token'', JStr (mint e now))]))"
    by (simp add: post_login_def assms Let_def sessions_put_mint)
  have b: "sessions (fst (post_login lib get_err now srv e p)) t = Some e'"
    if m: "minted (sessions srv)" and t: "sessions srv t = Some e'" for t e'
  proof (cases "t = mint e now")
    case True
    obtain n where "t = mint e' n" using m t unfolding minted_def by blast
    then have "e' = e" using True mint_email by metis
    then show ?thesis using True by (simp add: a)
  next
    case False
    then show ?thesis using t by (simp add: a)
  qed
  have c: "minted (sessions (serve initial trace))"
    by (rule serve_minted) (simp add: initial_def minted_def)
  show ?thesis using a b c by (simp add: mint_def)
qed

theorem login_mints_token_witness:
  "db_get None (db (two_students\<lparr>sessions := [''bob@example.com-5'' \<mapsto> ''bob@example.com'']\<rparr>))
        (SqlText ''alice@example.com'') =
        Inr (Some \<lparr>firstName = ''Alice'', lastName = ''Ang'', username = ''alice'',
                   email = Some ''alice@example.com'', contact = ''0911'',
                   password = ''$2b$10$terces'', id = 1\<rparr>)
   \<and> bcrypt_compare example_bcrypt ''secret''
        (password \<lparr>firstName = ''Alice'', lastName = ''Ang'', username = ''alice'',
                   email = Some ''alice@example.com'', contact = ''0911'',
                   password = ''$2b$10$terces'', id = 1\<rparr>) = Inr True
   \<and> minted [''bob@example.com-5'' \<mapsto> ''bob@example.com'']
   \<and> post_login example_bcrypt None 1700000000000
         (two_students\<lparr>sessions := [''bob@example.com-5'' \<mapsto> ''bob@example.com'']\<rparr>)
         ''alice@example.com'' ''secret''
        = (two_students\<lparr>sessions := [''bob@example.com-5'' \<mapsto> ''bob@example.com'',
                                       ''alice@example.com-1700000000000'' \<mapsto> ''alice@example.com'']\<rparr>,
           Response 200 (JObj [(''token'', JStr ''alice@example.com-1700000000000'')]))"
proof -
  have d: "decimal 1700000000000 = ''1700000000000''"
    by (simp add: decimal.simps digit_def)
  have e: "''bob@example.com-5'' = mint ''bob@example.com'' 5"
    by (simp add: mint_def decimal.simps digit_def)
  have m: "minted [''bob@example.com-5'' \<mapsto> ''bob@example.com'']"
    unfolding minted_def
  proof (intro allI impI)
    fix t e' assume "[''bob@example.com-5'' \<mapsto> ''bob@example.com''] t = Some e'"
    then have "t = ''bob@example.com-5'' \<and> e' = ''bob@example.com''"
      by (cases "t = ''bob@example.com-5''")
         (simp_all del: fun_upd_apply add: fun_upd_same fun_upd_other)
    then show "\<exists>n. t = mint e' n" using e by blast
  qed
  have h1: "db_get None (db (two_students\<lparr>sessions := [''bob@example.com-5'' \<mapsto> ''bob@example.com'']\<rparr>))
        (SqlText ''alice@example.com'') =
        Inr (Some \<lparr>firstName = ''Alice'', lastName = ''Ang'', username = ''alice'',
                   email = Some ''alice@example.com'', contact = ''0911'',
                   password = ''$2b$10$terces'', id = 1\<rparr>)"
    by (simp add: db_get_def two_students_def)
  have h2: "bcrypt_compare example_bcrypt ''secret''
        (password \<lparr>firstName = ''Alice'', lastName = ''Ang'', username = ''alice'',
                   email = Some ''alice@example.com'', contact = ''0911'',
                   password = ''$2b$10$terces'', id = 1\<rparr>) = Inr True"
    by (simp add: example_bcrypt_def)
  have r: "post_login example_bcrypt None 1700000000000
         (two_students\<lparr>sessions := [''bob@example.com-5'' \<mapsto> ''bob@example.com'']\<rparr>)
         ''alice@example.com'' ''secret''
        = (two_students\<lparr>sessions := [''bob@example.com-5'' \<mapsto> ''bob@example.com'',
                                       ''alice@example.com-1700000000000'' \<mapsto> ''alice@example.com'']\<rparr>,
           Response 200 (JObj [(''token'', JStr ''alice@example.com-1700000000000'')]))"
    using login_mints_token [OF h1 h2, where now = 1700000000000, THEN conjunct1]
    by (simp add: d)
  show ?thesis using h1 h2 m r by blast
qed

text \<open>The token is not the email directly followed by the time: a hyphen stands between.\<close>

theorem login_token_counterexample:
  "snd (post_login example_bcrypt None 1700000000000 two_students ''alice@example.com'' ''secret'')
     = Response 200 (JObj [(''token'', JStr ''alice@example.com-1700000000000'')])
   \<and> ''alice@example.com-1700000000000'' \<noteq> ''alice@example.com'' @ decimal 1700000000000"
proof -
  have d: "decimal 1700000000000 = ''1700000000000''"
    by (simp add: decimal.simps digit_def)
  show ?thesis
    by (simp add: post_login_def db_get_def two_students_def example_bcrypt_def Let_def
          sessions_put_def mint_def d)
qed

section \<open>Profile\<close>


text \<open>What the handler does for a token stored with a non-empty email.\<close>

lemma profile_lookup_stored:
  "sessions srv t = Some e \<Longrightarrow> e \<noteq> [] \<Longrightarrow>
   profile_lookup drv get_err srv (Some t) = Some (db_get get_err (db srv) (SqlText e))"
  by (simp add: profile_lookup_def sessions_get_def property_key_def truthy_def bind_param_def)

lemma profile_of_stored_token:
  assumes "sessions srv t = Some e" "e \<noteq> []"
  shows "db_get None (db srv) (SqlText e) = Inr (Some user) \<Longrightarrow>
           get_profile drv None srv (Some t) = (srv, Response 200 (JObj [(''profile'', row_json user)]))"
    and "Some e \<notin> set (map email (students (db srv))) \<Longrightarrow>
           get_profile drv None srv (Some t) = (srv, Response 404 (message ''User not found''))"
proof -
  note l = profile_lookup_stored[OF assms, of drv None]
  show "get_profile drv None srv (Some t) = (srv, Response 200 (JObj [(''profile'', row_json user)]))"
    if "db_get None (db srv) (SqlText e) = Inr (Some user)"
    by (simp add: get_profile_def l that profile_callback_def)
  show "get_profile drv None srv (Some t) = (srv, Response 404 (message ''User not found''))"
    if "Some e \<notin> set (map email (students (db srv)))"
  proof -
    have "db_get None (db srv) (SqlText e) = Inr None"
      using that db_get_None_iff[of None "db srv" e] by simp
    then show ?thesis by (simp add: get_profile_def l profile_callback_def)
  qed
qed

lemma profile_of_unknown_token:
  assumes "sessions srv (property_key token) = None" "property_key token \<notin> set Object_prototype"
  shows "get_profile drv get_err srv token = (srv, Response 401 (message ''Unauthorized''))"
  using assms by (simp add: get_profile_def profile_lookup_def sessions_get_def truthy_def)

text \<open>A key of \<^verbatim>\<open>Object.prototype\<close> that is no own property passes the guard, whatever the
  driver binds for it and whatever the storage answers.\<close>

lemma profile_of_inherited_key:
  assumes "sessions srv k = None" "k \<in> set Object_prototype"
  shows "status (snd (get_profile drv get_err srv (Some k))) \<in> {200, 404, 500}"
  using assms
  by (simp add: get_profile_def profile_lookup_def sessions_get_def property_key_def truthy_def
        profile_callback_def split: sum.splits option.splits)

text \<open>
  C3 at two inputs. First: a student registers with the empty string as email and logs in,
  so that the session map holds the minted token; the profile request bearing that token is
  answered 401 and not with the stored record, because \<^verbatim>\<open>!email\<close> holds of the empty string.
  Second: a request whose token is \<^verbatim>\<open>constructor\<close>, a key absent from the session map, is not
  answered 401: the read \<^verbatim>\<open>sessions[token]\<close> finds the member of \<^verbatim>\<open>Object.prototype\<close>, the
  guard passes and the lookup decides the answer (here 404).
\<close>

theorem profile_token_failures:
  "snd (post_register example_bcrypt None None initial (alice\<lparr>email := Some []\<rparr>))
     = Response 200 (message_id ''Registered successfully'' 1)
   \<and> snd (post_login example_bcrypt None 1700000000000
            (fst (post_register example_bcrypt None None initial (alice\<lparr>email := Some []\<rparr>)))
            [] ''secret'')
     = Response 200 (JObj [(''token'', JStr ''-1700000000000'')])
   \<and> sessions (fst (post_login example_bcrypt None 1700000000000
            (fst (post_register example_bcrypt None None initial (alice\<lparr>email := Some []\<rparr>)))
            [] ''secret'')) ''-1700000000000'' = Some []
   \<and> snd (get_profile example_drv None
            (fst (post_login example_bcrypt None 1700000000000
               (fst (post_register example_bcrypt None None initial (alice\<lparr>email := Some []\<rparr>)))
               [] ''secret''))
            (Some ''-1700000000000''))
     = Response 401 (message ''Unauthorized'')
   \<and> sessions two_students ''constructor'' = None
   \<and> snd (get_profile example_drv None two_students (Some ''constructor''))
     = Response 404 (message ''User not found'')"
proof -
  have d: "decimal 1700000000000 = ''1700000000000''"
    by (simp add: decimal.simps digit_def)
  have r: "post_register example_bcrypt None None initial (alice\<lparr>email := Some []\<rparr>) =
        (\<lparr>db = \<lparr>students = [\<lparr>firstName = ''Alice'', lastName = ''Ang'', username = ''alice'',
                    email = Some [], contact = ''0911'', password = ''$2b$10$terces'', id = 1\<rparr>],
                sequence = 1\<rparr>, sessions = Map.empty\<rparr>,
         Response 200 (message_id ''Registered successfully'' 1))"
    by (simp add: post_register_def db_get_def bind_email_def initial_def alice_def
          example_bcrypt_def db_run_insert_def next_id_def Let_def)
  have l: "post_login example_bcrypt None 1700000000000
        \<lparr>db = \<lparr>students = [\<lparr>firstName = ''Alice'', lastName = ''Ang'', username = ''alice'',
                    email = Some [], contact = ''0911'', password = ''$2b$10$terces'', id = 1\<rparr>],
                sequence = 1\<rparr>, sessions = Map.empty\<rparr> [] ''secret'' =
        (\<lparr>db = \<lparr>students = [\<lparr>firstName = ''Alice'', lastName = ''Ang'', username = ''alice'',
                    email = Some [], contact = ''0911'', password = ''$2b$10$terces'', id = 1\<rparr>],
                sequence = 1\<rparr>, sessions = [''-1700000000000'' \<mapsto> []]\<rparr>,
         Response 200 (JObj [(''token'', JStr ''-1700000000000'')]))"
    by (simp add: post_login_def db_get_def example_bcrypt_def Let_def sessions_put_def mint_def d)
  have p: "get_profile example_drv None
        \<lparr>db = \<lparr>students = [\<lparr>firstName = ''Alice'', lastName = ''Ang'', username = ''alice'',
                    email = Some [], contact = ''0911'', password = ''$2b$10$terces'', id = 1\<rparr>],
                sequence = 1\<rparr>, sessions = [''-1700000000000'' \<mapsto> []]\<rparr>
        (Some ''-1700000000000'') =
        (\<lparr>db = \<lparr>students = [\<lparr>firstName = ''Alice'', lastName = ''Ang'', username = ''alice'',
                    email = Some [], contact = ''0911'', password = ''$2b$10$terces'', id = 1\<rparr>],
                sequence = 1\<rparr>, sessions = [''-1700000000000'' \<mapsto> []]\<rparr>,
         Response 401 (message ''Unauthorized''))"
    by (simp add: get_profile_def profile_lookup_def sessions_get_def property_key_def truthy_def)
  have c: "snd (get_profile example_drv None two_students (Some ''constructor''))
     = Response 404 (message ''User not found'')"
    by (simp add: get_profile_def profile_lookup_def sessions_get_def property_key_def truthy_def
          Object_prototype_def bind_param_def example_drv_def db_get_def two_students_def
          profile_callback_def)
  show ?thesis by (simp add: r l p c) (simp add: two_students_def)
qed



section \<open>The students routes\<close>

lemma post_register_success:
  assumes "post_register lib g ru srv b = (srv', Response 200 j)"
  shows "\<exists>h. students (db srv') = students (db srv) @
            [\<lparr>firstName = firstName b, lastName = lastName b, username = username b,
              email = email b, contact = contact b, password = h, id = next_id (db srv)\<rparr>]
          \<and> j = message_id ''Registered successfully'' (next_id (db srv))"
  using assms
  by (cases ru)
     (auto simp: post_register_def db_run_insert_def Let_def
           split: sum.splits option.splits if_splits)

lemma listed_id: "listed r = JObj ((''id'', JNum n) # kvs) \<Longrightarrow> id r = n"
  by (simp add: listed_def)

lemma count_listed_fresh:
  assumes "\<forall>r\<in>set rs. id r \<noteq> n"
  shows "count_list (map listed rs) (JObj ((''id'', JNum n) # kvs)) = 0"
proof -
  have "JObj ((''id'', JNum n) # kvs) \<notin> set (map listed rs)"
  proof
    assume "JObj ((''id'', JNum n) # kvs) \<in> set (map listed rs)"
    then obtain r where "r \<in> set rs" "listed r = JObj ((''id'', JNum n) # kvs)" by auto
    then show False using assms listed_id by blast
  qed
  then show ?thesis by simp
qed

text \<open>
  C4. When the storage answers, \<^verbatim>\<open>GET /api/students\<close> responds with one object per stored
  row, in table order, each with exactly the keys id, firstName, lastName, email and contact
  holding that row's values (null for an email that is NULL); no element has the key password.
  After a registration that answered 200 with rowid \<open>n\<close>, the list holds exactly once the object with id \<open>n\<close> and the
  registered first name, last name, email and contact.
\<close>

theorem list_projects_rows:
  "get_students None srv =
     (srv, Response 200 (JArr (map (\<lambda>r. JObj [(''id'', JNum (id r)),
              (''firstName'', JStr (firstName r)), (''lastName'', JStr (lastName r)),
              (''email'', nullable (email r)), (''contact'', JStr (contact r))]) (students (db srv)))))
   \<and> keys (listed r) = [''id'', ''firstName'', ''lastName'', ''email'', ''contact'']
   \<and> ''password'' \<notin> set (keys (listed r))
   \<and> (post_register lib get_err run_err srv b =
         (srv', Response 200 (message_id ''Registered successfully'' n)) \<longrightarrow>
       (\<exists>rows. get_students None srv' = (srv', Response 200 (JArr rows))
          \<and> count_list rows (JObj [(''id'', JNum n), (''firstName'', JStr (firstName b)),
                (''lastName'', JStr (lastName b)), (''email'', nullable (email b)),
                (''contact'', JStr (contact b))]) = 1))"
proof -
  have a: "get_students None srv' = (srv', Response 200 (JArr (map listed (students (db srv')))))"
    for srv'
    by (simp add: get_students_def db_all_def)
  have b: "keys (listed r) = [''id'', ''firstName'', ''lastName'', ''email'', ''contact'']"
    by (simp add: keys_def listed_def)
  have c: "count_list (map listed (students (db srv')))
             (JObj [(''id'', JNum n), (''firstName'', JStr (firstName b)),
                (''lastName'', JStr (lastName b)), (''email'', nullable (email b)),
                (''contact'', JStr (contact b))]) = 1"
    if reg: "post_register lib get_err run_err srv b =
         (srv', Response 200 (message_id ''Registered successfully'' n))"
  proof -
    obtain h where rows: "students (db srv') = students (db srv) @
            [\<lparr>firstName = firstName b, lastName = lastName b, username = username b,
              email = email b, contact = contact b, password = h, id = next_id (db srv)\<rparr>]"
      and n: "n = next_id (db srv)"
      using post_register_success[OF reg] by (auto simp: message_id_def)
    have "\<forall>r\<in>set (students (db srv)). id r \<noteq> n"
      using next_id_fresh[of _ "db srv"] n by fastforce
    from count_listed_fresh[OF this]
    show ?thesis by (simp add: rows n) (simp add: listed_def)
  qed
  show ?thesis using a[of srv] a[of srv'] b c by (auto simp: listed_def)
qed

theorem list_projects_rows_witness:
  "post_register example_bcrypt None None two_students (bob\<lparr>email := Some ''carol@example.com''\<rparr>) =
     (fst (post_register example_bcrypt None None two_students (bob\<lparr>email := Some ''carol@example.com''\<rparr>)),
      Response 200 (message_id ''Registered successfully'' 3))
   \<and> get_students None two_students =
       (two_students, Response 200 (JArr
          [JObj [(''id'', JNum 1), (''firstName'', JStr ''Alice''), (''lastName'', JStr ''Ang''),
                 (''email'', JStr ''alice@example.com''), (''contact'', JStr ''0911'')],
           JObj [(''id'', JNum 2), (''firstName'', JStr ''Bob''), (''lastName'', JStr ''Bau''),
                 (''email'', JStr ''bob@example.com''), (''contact'', JStr ''0922'')]]))
   \<and> snd (get_students None
        (fst (post_register example_bcrypt None None two_students (bob\<lparr>email := Some ''carol@example.com''\<rparr>))))
      = Response 200 (JArr
          [JObj [(''id'', JNum 1), (''firstName'', JStr ''Alice''), (''lastName'', JStr ''Ang''),
                 (''email'', JStr ''alice@example.com''), (''contact'', JStr ''0911'')],
           JObj [(''id'', JNum 2), (''firstName'', JStr ''Bob''), (''lastName'', JStr ''Bau''),
                 (''email'', JStr ''bob@example.com''), (''contact'', JStr ''0922'')],
           JObj [(''id'', JNum 3), (''firstName'', JStr ''Bob''), (''lastName'', JStr ''Bau''),
                 (''email'', JStr ''carol@example.com''), (''contact'', JStr ''0922'')]])"
  using list_projects_rows
     [where srv = two_students and lib = example_bcrypt and get_err = None and run_err = None
        and b = "bob\<lparr>email := Some ''carol@example.com''\<rparr>" and n = 3
        and srv' = "fst (post_register example_bcrypt None None two_students
                          (bob\<lparr>email := Some ''carol@example.com''\<rparr>))"]
  by (simp add: two_students_def bob_def example_bcrypt_def post_register_def db_get_def
        bind_email_def nullable_def db_run_insert_def next_id_def Let_def get_students_def
        db_all_def listed_def)

lemma put_students_conflict_iff:
  "(list_ex (matches i) rs \<and> list_ex (\<lambda>r. \<not> matches i r \<and> e \<noteq> None \<and> email r = e) rs)
   \<longleftrightarrow> (\<exists>r\<in>set rs. i = Some (id r))
        \<and> (\<exists>r\<in>set rs. i \<noteq> Some (id r) \<and> email r = e) \<and> e \<noteq> None"
  by (auto simp: list_ex_iff matches_def)

text \<open>
  C5, as the code has it. When the storage runs the statement and the payload's email is not
  the email of a row with another id (a payload without an email holds no row's email),
  \<^verbatim>\<open>PUT /api/students/:id\<close> overwrites the six data columns of the row whose id is the
  identifier, leaves every other row as it was and
  answers 200 with the generic success message. When no row has the identifier the answer
  is still that success message and the server is unchanged. When a row has the identifier
  and another row holds the email that the payload has, the UNIQUE column rejects the
  statement: the answer is 500 "Update error" and no row changes.
\<close>

theorem update_overwrites_row:
  "((\<forall>r\<in>set (students (db srv)). i \<noteq> Some (id r) \<longrightarrow> email b = None \<or> email r \<noteq> email b) \<longrightarrow>
      put_students None srv i b =
        (srv\<lparr>db := (db srv)\<lparr>students :=
               map (\<lambda>r. if i = Some (id r)
                        then \<lparr>firstName = firstName b, lastName = lastName b,
                              username = username b, email = email b, contact = contact b,
                              password = password b, id = id r\<rparr>
                        else r) (students (db srv))\<rparr>\<rparr>,
         Response 200 (message ''Student updated successfully'')))
   \<and> ((\<forall>r\<in>set (students (db srv)). i \<noteq> Some (id r)) \<longrightarrow>
        put_students None srv i b = (srv, Response 200 (message ''Student updated successfully'')))
   \<and> ((\<exists>r\<in>set (students (db srv)). i = Some (id r))
        \<and> (\<exists>r\<in>set (students (db srv)). i \<noteq> Some (id r) \<and> email r = email b)
        \<and> email b \<noteq> None \<longrightarrow>
        put_students None srv i b = (srv, Response 500 (message_error ''Update error'' UNIQUE_email)))"
proof -
  have a: "put_students None srv i b =
        (srv\<lparr>db := (db srv)\<lparr>students :=
               map (\<lambda>r. if i = Some (id r)
                        then \<lparr>firstName = firstName b, lastName = lastName b,
                              username = username b, email = email b, contact = contact b,
                              password = password b, id = id r\<rparr>
                        else r) (students (db srv))\<rparr>\<rparr>,
         Response 200 (message ''Student updated successfully''))"
    if "\<forall>r\<in>set (students (db srv)). i \<noteq> Some (id r) \<longrightarrow> email b = None \<or> email r \<noteq> email b"
  proof -
    have "\<not> (list_ex (matches i) (students (db srv)) \<and>
             list_ex (\<lambda>r. \<not> matches i r \<and> email b \<noteq> None \<and> email r = email b)
               (students (db srv)))"
      using that unfolding put_students_conflict_iff by auto
    then show ?thesis by (simp add: put_students_def db_run_update_def matches_def)
  qed
  have b: "put_students None srv i b = (srv, Response 200 (message ''Student updated successfully''))"
    if "\<forall>r\<in>set (students (db srv)). i \<noteq> Some (id r)"
  proof -
    have n: "\<not> list_ex (matches i) (students (db srv))"
      using that by (simp add: list_ex_iff matches_def)
    show ?thesis using n update_no_match[OF n]
      by (simp add: put_students_def db_run_update_def)
  qed
  have c: "put_students None srv i b = (srv, Response 500 (message_error ''Update error'' UNIQUE_email))"
    if "(\<exists>r\<in>set (students (db srv)). i = Some (id r))
        \<and> (\<exists>r\<in>set (students (db srv)). i \<noteq> Some (id r) \<and> email r = email b)
        \<and> email b \<noteq> None"
  proof -
    have "list_ex (matches i) (students (db srv)) \<and>
             list_ex (\<lambda>r. \<not> matches i r \<and> email b \<noteq> None \<and> email r = email b)
               (students (db srv))"
      using that unfolding put_students_conflict_iff by blast
    then show ?thesis by (simp add: put_students_def db_run_update_def)
  qed
  show ?thesis using a b c by blast
qed

theorem update_overwrites_row_witness:
  "\<not> list_ex (\<lambda>r. Some 2 \<noteq> Some (id r) \<and> email r = email (alice\<lparr>email := Some ''bob@new.org''\<rparr>))
        (students (db two_students))
   \<and> students (db (fst (put_students None two_students (Some 2) (alice\<lparr>email := Some ''bob@new.org''\<rparr>)))) =
       [\<lparr>firstName = ''Alice'', lastName = ''Ang'', username = ''alice'',
         email = Some ''alice@example.com'', contact = ''0911'', password = ''$2b$10$terces'', id = 1\<rparr>,
        \<lparr>firstName = ''Alice'', lastName = ''Ang'', username = ''alice'',
         email = Some ''bob@new.org'', contact = ''0911'', password = ''secret'', id = 2\<rparr>]
   \<and> \<not> list_ex (\<lambda>r. Some 7 = Some (id r)) (students (db two_students))
   \<and> put_students None two_students (Some 7) alice =
       (two_students, Response 200 (message ''Student updated successfully''))
   \<and> list_ex (\<lambda>r. Some 2 = Some (id r)) (students (db two_students))
   \<and> list_ex (\<lambda>r. Some 2 \<noteq> Some (id r) \<and> email r = email alice) (students (db two_students))
   \<and> email alice \<noteq> None
   \<and> put_students None two_students (Some 2) alice =
       (two_students, Response 500 (message_error ''Update error'' UNIQUE_email))"
proof -
  have a: "students (db (fst (put_students None two_students (Some 2) (alice\<lparr>email := Some ''bob@new.org''\<rparr>)))) =
       [\<lparr>firstName = ''Alice'', lastName = ''Ang'', username = ''alice'',
         email = Some ''alice@example.com'', contact = ''0911'', password = ''$2b$10$terces'', id = 1\<rparr>,
        \<lparr>firstName = ''Alice'', lastName = ''Ang'', username = ''alice'',
         email = Some ''bob@new.org'', contact = ''0911'', password = ''secret'', id = 2\<rparr>]"
    using update_overwrites_row
          [where srv = two_students and i = "Some 2" and b = "alice\<lparr>email := Some ''bob@new.org''\<rparr>"]
    by (simp add: two_students_def alice_def)
  have b: "put_students None two_students (Some 7) alice =
       (two_students, Response 200 (message ''Student updated successfully''))"
    using update_overwrites_row [where srv = two_students and i = "Some 7" and b = alice]
    by (simp add: two_students_def)
  have c: "put_students None two_students (Some 2) alice =
       (two_students, Response 500 (message_error ''Update error'' UNIQUE_email))"
    using update_overwrites_row [where srv = two_students and i = "Some 2" and b = alice]
    by (simp add: two_students_def alice_def)
  show ?thesis using a b c by (simp add: two_students_def alice_def)
qed

text \<open>An update of the second row to the email of the first is refused by the storage.\<close>

theorem update_overwrites_row_counterexample:
  "put_students None two_students (Some 2) (bob\<lparr>email := Some ''alice@example.com''\<rparr>) =
     (two_students, Response 500 (message_error ''Update error'' UNIQUE_email))
   \<and> id (students (db two_students) ! 1) = 2
   \<and> email (students (db (fst (put_students None two_students (Some 2)
                (bob\<lparr>email := Some ''alice@example.com''\<rparr>)))) ! 1)
       \<noteq> Some ''alice@example.com''"
  by (simp add: put_students_def db_run_update_def two_students_def bob_def matches_def)

text \<open>
  C6. When the storage runs the statement, \<^verbatim>\<open>DELETE /api/students/:id\<close> removes the rows
  whose id is the identifier, keeps every other row as it was and in order, and answers 200
  "Deleted successfully"; the list served afterwards is made of the kept rows only, none of
  which has the identifier; and the same delete issued again answers the same success and
  leaves the server as it is.
\<close>

theorem delete_removes_row:
  "delete_students None srv i =
     (srv\<lparr>db := (db srv)\<lparr>students := filter (\<lambda>r. i \<noteq> Some (id r)) (students (db srv))\<rparr>\<rparr>,
      Response 200 (message ''Deleted successfully''))
   \<and> get_students None (fst (delete_students None srv i)) =
       (fst (delete_students None srv i),
        Response 200 (JArr (map listed (filter (\<lambda>r. i \<noteq> Some (id r)) (students (db srv))))))
   \<and> (\<forall>r\<in>set (students (db (fst (delete_students None srv i)))). i \<noteq> Some (id r))
   \<and> delete_students None (fst (delete_students None srv i)) i =
       (fst (delete_students None srv i), Response 200 (message ''Deleted successfully''))"
proof -
  have a: "delete_students None srv i =
     (srv\<lparr>db := (db srv)\<lparr>students := filter (\<lambda>r. i \<noteq> Some (id r)) (students (db srv))\<rparr>\<rparr>,
      Response 200 (message ''Deleted successfully''))" for srv
    by (simp add: delete_students_def db_run_delete_def matches_def)
  show ?thesis
    unfolding a by (simp add: a get_students_def db_all_def)
qed

theorem delete_removes_row_witness:
  "students (db (fst (delete_students None two_students (Some 1)))) =
     [\<lparr>firstName = ''Bob'', lastName = ''Bau'', username = ''bob'',
       email = Some ''bob@example.com'', contact = ''0922'', password = ''hunter2'', id = 2\<rparr>]
   \<and> snd (get_students None (fst (delete_students None two_students (Some 1)))) =
       Response 200 (JArr
          [JObj [(''id'', JNum 2), (''firstName'', JStr ''Bob''), (''lastName'', JStr ''Bau''),
                 (''email'', JStr ''bob@example.com''), (''contact'', JStr ''0922'')]])
   \<and> delete_students None (fst (delete_students None two_students (Some 1))) (Some 1) =
       (fst (delete_students None two_students (Some 1)),
        Response 200 (message ''Deleted successfully''))"
  using delete_removes_row [where srv = two_students and i = "Some 1"]
  by (simp add: two_students_def listed_def nullable_def delete_students_def db_run_delete_def
        matches_def get_students_def db_all_def)

section \<open>The form hook\<close>

lemma fetchStudents_requests: "requests (fetchStudents net h) = requests h @ [ApiGetStudents]"
  by (simp add: fetchStudents_def Let_def split: sum.splits)

lemma addStudent_requests:
  "\<exists>rest. requests (addStudent net h s) = requests h @ ApiPostRegister s # rest
          \<and> set rest \<subseteq> {ApiGetStudents}"
  by (auto simp: addStudent_def Let_def fetchStudents_requests split: sum.splits)

lemma updateStudent_requests:
  "\<exists>rest. requests (updateStudent net h i s) = requests h @ ApiPutStudent i s # rest
          \<and> set rest \<subseteq> {ApiGetStudents}"
  by (auto simp: updateStudent_def Let_def fetchStudents_requests split: sum.splits)

text \<open>
  C9. Whatever the form holds, whatever the editing identifier is and whatever the HTTP
  client answers (a response of any status, or a thrown error), the submit handler issues
  first the update call for the editing identifier with the form when the identifier is not
  null, and the register call with the form when it is null, after which at most the list
  is fetched again; and it leaves every field of the form the empty string and the editing
  identifier null.
\<close>

theorem submit_dispatches_then_resets:
  "fst (handleSubmit net (f, h)) =
     \<lparr>form = \<lparr>firstName = [], lastName = [], username = [], email = [], contact = [],
              password = []\<rparr>,
      editId = None\<rparr>
   \<and> (\<forall>i. editId f = Some i \<longrightarrow>
         (\<exists>rest. requests (snd (handleSubmit net (f, h))) =
                   requests h @ ApiPutStudent i (form f) # rest \<and> set rest \<subseteq> {ApiGetStudents}))
   \<and> (editId f = None \<longrightarrow>
         (\<exists>rest. requests (snd (handleSubmit net (f, h))) =
                   requests h @ ApiPostRegister (form f) # rest \<and> set rest \<subseteq> {ApiGetStudents}))"
proof -
  have a: "fst (handleSubmit net (f, h)) =
     \<lparr>form = \<lparr>firstName = [], lastName = [], username = [], email = [], contact = [],
              password = []\<rparr>,
      editId = None\<rparr>"
    by (cases f) (simp add: handleSubmit_def Let_def resetForm_def blank_def)
  have b: "\<exists>rest. requests (snd (handleSubmit net (f, h))) =
                   requests h @ ApiPutStudent i (form f) # rest \<and> set rest \<subseteq> {ApiGetStudents}"
    if "editId f = Some i" for i
    using updateStudent_requests[of net h i "form f"] that
    by (simp add: handleSubmit_def Let_def)
  have c: "\<exists>rest. requests (snd (handleSubmit net (f, h))) =
                   requests h @ ApiPostRegister (form f) # rest \<and> set rest \<subseteq> {ApiGetStudents}"
    if "editId f = None"
    using addStudent_requests[of net h "form f"] that
    by (simp add: handleSubmit_def Let_def)
  show ?thesis using a b c by blast
qed

theorem submit_dispatches_then_resets_witness:
  "editId \<lparr>form = alice_form, editId = Some 4\<rparr> = Some 4
   \<and> handleSubmit (\<lambda>c. Inl ''Network Error'')
        (\<lparr>form = alice_form, editId = Some 4\<rparr>, \<lparr>fetched = JArr [], error = None, requests = []\<rparr>) =
      (\<lparr>form = \<lparr>firstName = [], lastName = [], username = [], email = [], contact = [],
                password = []\<rparr>, editId = None\<rparr>,
       \<lparr>fetched = JArr [], error = Some ''Failed to update student'',
        requests = [ApiPutStudent 4 alice_form]\<rparr>)
   \<and> editId \<lparr>form = bob_form, editId = None\<rparr> = None
   \<and> handleSubmit (\<lambda>c. Inr (Response 200 (JArr [])))
        (\<lparr>form = bob_form, editId = None\<rparr>, \<lparr>fetched = JArr [], error = None, requests = []\<rparr>) =
      (\<lparr>form = \<lparr>firstName = [], lastName = [], username = [], email = [], contact = [],
                password = []\<rparr>, editId = None\<rparr>,
       \<lparr>fetched = JArr [], error = None, requests = [ApiPostRegister bob_form, ApiGetStudents]\<rparr>)"
  using submit_dispatches_then_resets
          [where net = "\<lambda>c. Inl ''Network Error''" and f = "\<lparr>form = alice_form, editId = Some 4\<rparr>"
             and h = "\<lparr>fetched = JArr [], error = None, requests = []\<rparr>"]
        submit_dispatches_then_resets
          [where net = "\<lambda>c. Inr (Response 200 (JArr []))" and f = "\<lparr>form = bob_form, editId = None\<rparr>"
             and h = "\<lparr>fetched = JArr [], error = None, requests = []\<rparr>"]
  by (simp add: handleSubmit_def Let_def resetForm_def blank_def updateStudent_def addStudent_def
        fetchStudents_def)

end
